theory Spec2Isabelle
  imports Complex_Main "HOL-Library.Log_Nat"
begin

section \<open>JavaScript values read and built by the cart controller\<close>

text \<open>
  \<^verbatim>\<open>src/controllers/cartController.ts\<close> handles requests whose body, whose upstream
  replies and whose caught errors are all typed \<^verbatim>\<open>any\<close>: which branch a handler takes
  depends on the run-time type of a value (\<^verbatim>\<open>!==\<close> between a number and a string,
  \<^verbatim>\<open>||\<close> on a missing field, \<^verbatim>\<open><\<close> between a number and a numeric string). The
  model therefore keeps values dynamically typed.
\<close>

subsection \<open>Numbers\<close>

text \<open>
  A JavaScript number is an IEEE-754 binary64 value. A finite one is kept by its exact
  rational value; the sign of zero is not kept (the controller never divides, and
  \<^verbatim>\<open>===\<close>, \<^verbatim>\<open><\<close>, \<^verbatim>\<open>||\<close> and \<^verbatim>\<open>toString\<close> do not tell \<^verbatim>\<open>-0\<close> from \<^verbatim>\<open>0\<close>).
\<close>

datatype jsnum = Fin rat | NaN | PosInf | NegInf

definition pow2 :: "int \<Rightarrow> rat" where
  "pow2 e = (if 0 \<le> e then 2 ^ nat e else 1 / 2 ^ nat (- e))"

definition pow10 :: "int \<Rightarrow> rat" where
  "pow10 e = (if 0 \<le> e then 10 ^ nat e else 1 / 10 ^ nat (- e))"

definition round_ties_even :: "rat \<Rightarrow> int" where
  "round_ties_even q =
     (let f = \<lfloor>q\<rfloor>; r = q - of_int f
      in if r < 1 / 2 then f else if 1 / 2 < r then f + 1 else if even f then f else f + 1)"

definition ilog2 :: "rat \<Rightarrow> int" where
  \<comment> \<open>\<open>\<lfloor>log\<^sub>2 q\<rfloor>\<close> for \<open>q > 0\<close>\<close>
  "ilog2 q =
     (let (a, b) = quotient_of q; d = bitlen a - bitlen b
      in if pow2 d \<le> q then d else d - 1)"

definition fl :: "rat \<Rightarrow> jsnum" where
  \<comment> \<open>round to nearest binary64, ties to even: a significand \<open>m \<le> 2\<^sup>5\<^sup>3\<close> at exponent
      \<open>e\<close>, least exponent \<open>-1074\<close> (subnormals), infinity from \<open>2\<^sup>1\<^sup>0\<^sup>2\<^sup>4\<close> on\<close>
  "fl q =
     (if q = 0 then Fin 0
      else
        let a = \<bar>q\<bar>;
            e = max (ilog2 a - 52) (- 1074);
            m = round_ties_even (a / pow2 e)
        in if 971 < e \<or> (e = 971 \<and> m = 2 ^ 53) then (if 0 < q then PosInf else NegInf)
           else Fin (if 0 < q then of_int m * pow2 e else - (of_int m * pow2 e)))"

fun num_add :: "jsnum \<Rightarrow> jsnum \<Rightarrow> jsnum" where
  "num_add NaN y = NaN"
| "num_add x NaN = NaN"
| "num_add PosInf NegInf = NaN"
| "num_add NegInf PosInf = NaN"
| "num_add PosInf y = PosInf"
| "num_add NegInf y = NegInf"
| "num_add x PosInf = PosInf"
| "num_add x NegInf = NegInf"
| "num_add (Fin a) (Fin b) = fl (a + b)"

definition num_sign :: "jsnum \<Rightarrow> int" where
  "num_sign x =
     (case x of
        Fin a \<Rightarrow> (if a = 0 then 0 else if 0 < a then 1 else - 1)
      | PosInf \<Rightarrow> 1
      | NegInf \<Rightarrow> - 1
      | NaN \<Rightarrow> 0)"

fun num_mul :: "jsnum \<Rightarrow> jsnum \<Rightarrow> jsnum" where
  "num_mul NaN y = NaN"
| "num_mul x NaN = NaN"
| "num_mul (Fin a) (Fin b) = fl (a * b)"
| "num_mul x y =
     (let s = num_sign x * num_sign y
      in if s = 0 then NaN else if 0 < s then PosInf else NegInf)"

fun num_lt :: "jsnum \<Rightarrow> jsnum \<Rightarrow> bool" where
  "num_lt NaN y = False"
| "num_lt x NaN = False"
| "num_lt (Fin a) (Fin b) = (a < b)"
| "num_lt x PosInf = (x \<noteq> PosInf)"
| "num_lt NegInf y = (y \<noteq> NegInf)"
| "num_lt x y = False"

subsection \<open>Strings\<close>

text \<open>
  Strings are lists of 8-bit characters, read as UTF-16 code units below 256. Two
  strings compare with \<^verbatim>\<open><\<close> code unit by code unit.
\<close>

fun str_lt :: "string \<Rightarrow> string \<Rightarrow> bool" where
  "str_lt [] [] = False"
| "str_lt [] (y # ys) = True"
| "str_lt (x # xs) [] = False"
| "str_lt (x # xs) (y # ys) =
     (if (of_char x :: nat) < of_char y then True
      else if (of_char y :: nat) < of_char x then False
      else str_lt xs ys)"

definition digit_char :: "nat \<Rightarrow> char" where
  "digit_char d = char_of (48 + d)"

fun nat_digits :: "nat \<Rightarrow> string" where
  "nat_digits n = (if n < 10 then [digit_char n] else nat_digits (n div 10) @ [digit_char (n mod 10)])"

declare nat_digits.simps [simp del]

subsection \<open>\<^verbatim>\<open>Number.prototype.toString\<close>\<close>

text \<open>
  ECMAScript's \<^verbatim>\<open>Number::toString\<close> in radix 10: the digits are the shortest decimal
  \<open>s\<close> (\<open>k\<close> digits, scaled by \<open>10\<^sup>n\<^sup>-\<^sup>k\<close>) that rounds back to the number, the closest to
  it among those of that length; the layout depends on \<open>n\<close>.
\<close>

definition ilog10 :: "rat \<Rightarrow> int" where
  \<comment> \<open>\<open>\<lfloor>log\<^sub>1\<^sub>0 q\<rfloor>\<close> for \<open>q > 0\<close>\<close>
  "ilog10 q =
     (let (a, b) = quotient_of q;
          d = int (length (nat_digits (nat a))) - int (length (nat_digits (nat b)))
      in if pow10 d \<le> q then d else d - 1)"

definition digit_candidates :: "rat \<Rightarrow> nat \<Rightarrow> (int \<times> int) list" where
  \<comment> \<open>the pairs \<open>(n, s)\<close> with \<open>s\<close> of \<open>k\<close> digits and \<open>s \<times> 10\<^sup>n\<^sup>-\<^sup>k\<close> rounding to \<open>x\<close>\<close>
  "digit_candidates x k =
     filter (\<lambda>(n, s). 10 ^ (k - 1) \<le> s \<and> s < 10 ^ k \<and> fl (of_int s * pow10 (n - int k)) = Fin x)
       (concat (map (\<lambda>n. [(n, \<lfloor>x / pow10 (n - int k)\<rfloor>), (n, \<lfloor>x / pow10 (n - int k)\<rfloor> + 1)])
          [ilog10 x + 1, ilog10 x + 2]))"

definition nearer :: "rat \<Rightarrow> nat \<Rightarrow> int \<times> int \<Rightarrow> int \<times> int \<Rightarrow> bool" where
  \<comment> \<open>the second candidate is nearer to \<open>x\<close> than the first, or as near and even where
      the first is odd\<close>
  "nearer x k c c' =
     (case (c, c') of
        ((n, s), (n', s')) \<Rightarrow>
          let d = \<bar>of_int s * pow10 (n - int k) - x\<bar>; d' = \<bar>of_int s' * pow10 (n' - int k) - x\<bar>
          in if d' < d then True else d' = d \<and> even s' \<and> odd s)"

fun closest :: "rat \<Rightarrow> nat \<Rightarrow> (int \<times> int) \<Rightarrow> (int \<times> int) list \<Rightarrow> int \<times> int" where
  "closest x k best [] = best"
| "closest x k best (c # cs) = (if nearer x k best c then closest x k c cs else closest x k best cs)"

fun shortest_digits :: "rat \<Rightarrow> nat \<Rightarrow> nat \<Rightarrow> nat \<times> int \<times> int" where
  \<comment> \<open>search \<open>k = 1, 2, \<dots>\<close>; 17 digits always suffice for a binary64 value\<close>
  "shortest_digits x k 0 = (k, ilog10 x + 1, \<lfloor>x / pow10 (ilog10 x + 1 - int k)\<rfloor>)"
| "shortest_digits x k (Suc fuel) =
     (case digit_candidates x k of
        [] \<Rightarrow> shortest_digits x (Suc k) fuel
      | c # cs \<Rightarrow> (case closest x k c cs of (n, s) \<Rightarrow> (k, n, s)))"

definition positive_to_string :: "rat \<Rightarrow> string" where
  "positive_to_string x =
     (case shortest_digits x 1 17 of (k, n, s) \<Rightarrow>
        let ds = nat_digits (nat s)
        in if int k \<le> n \<and> n \<le> 21 then ds @ replicate (nat (n - int k)) CHR ''0''
           else if 0 < n \<and> n \<le> 21 then take (nat n) ds @ ''.'' @ drop (nat n) ds
           else if - 6 < n \<and> n \<le> 0 then ''0.'' @ replicate (nat (- n)) CHR ''0'' @ ds
           else
             let ex = (if n - 1 < 0 then ''-'' else ''+'') @ nat_digits (nat \<bar>n - 1\<bar>)
             in if k = 1 then ds @ ''e'' @ ex
                else take 1 ds @ ''.'' @ drop 1 ds @ ''e'' @ ex)"

fun num_to_string :: "jsnum \<Rightarrow> string" where
  "num_to_string NaN = ''NaN''"
| "num_to_string PosInf = ''Infinity''"
| "num_to_string NegInf = ''-Infinity''"
| "num_to_string (Fin q) =
     (if q = 0 then ''0''
      else if q < 0 then ''-'' @ positive_to_string (- q)
      else positive_to_string q)"

subsection \<open>\<^verbatim>\<open>StringToNumber\<close>\<close>

text \<open>
  What \<^verbatim>\<open><\<close> and \<^verbatim>\<open>*\<close> make of a string operand: white space is trimmed, the empty
  string is \<open>0\<close>, a signed decimal literal (with optional fraction and exponent) or
  \<^verbatim>\<open>Infinity\<close> or an unsigned binary, octal or hexadecimal integer literal is its
  value rounded to binary64, anything else is \<^verbatim>\<open>NaN\<close>.
\<close>

definition is_space :: "char \<Rightarrow> bool" where
  "is_space c = ((of_char c :: nat) \<in> {9, 10, 11, 12, 13, 32, 160})"

definition trim :: "string \<Rightarrow> string" where
  "trim s = rev (dropWhile is_space (rev (dropWhile is_space s)))"

definition digit_value :: "char \<Rightarrow> nat option" where
  "digit_value c =
     (let n = (of_char c :: nat)
      in if 48 \<le> n \<and> n \<le> 57 then Some (n - 48)
         else if 97 \<le> n \<and> n \<le> 102 then Some (n - 87)
         else if 65 \<le> n \<and> n \<le> 70 then Some (n - 55)
         else None)"

definition is_digit_in :: "nat \<Rightarrow> char \<Rightarrow> bool" where
  "is_digit_in base c = (case digit_value c of None \<Rightarrow> False | Some d \<Rightarrow> d < base)"

definition digits_value :: "nat \<Rightarrow> string \<Rightarrow> nat" where
  "digits_value base ds = foldl (\<lambda>acc c. acc * base + (case digit_value c of None \<Rightarrow> 0 | Some d \<Rightarrow> d)) 0 ds"

definition exponent_part :: "string \<Rightarrow> int option" where
  \<comment> \<open>the rest of a decimal literal: nothing, or \<^verbatim>\<open>e\<close>, an optional sign and digits\<close>
  "exponent_part s =
     (case s of
        [] \<Rightarrow> Some 0
      | c # t \<Rightarrow>
          if c = CHR ''e'' \<or> c = CHR ''E'' then
            (let neg = (case t of [] \<Rightarrow> False | d # _ \<Rightarrow> d = CHR ''-'');
                 ds = (case t of
                         [] \<Rightarrow> []
                       | d # t' \<Rightarrow> if d = CHR ''-'' \<or> d = CHR ''+'' then t' else t)
             in if ds = [] then None
                else if list_all (is_digit_in 10) ds
                then Some (if neg then - int (digits_value 10 ds) else int (digits_value 10 ds))
                else None)
          else None)"

definition unsigned_decimal :: "string \<Rightarrow> rat option" where
  \<comment> \<open>digits, an optional point and digits (digits on one side of it at least), an
      optional exponent, and nothing else\<close>
  "unsigned_decimal s =
     (let ip = takeWhile (is_digit_in 10) s;
          r = dropWhile (is_digit_in 10) s;
          fp = (case r of
                  [] \<Rightarrow> []
                | c # t \<Rightarrow> if c = CHR ''.'' then takeWhile (is_digit_in 10) t else []);
          r' = (case r of
                  [] \<Rightarrow> []
                | c # t \<Rightarrow> if c = CHR ''.'' then dropWhile (is_digit_in 10) t else r)
      in if ip = [] \<and> fp = [] then None
         else
           (case exponent_part r' of
              None \<Rightarrow> None
            | Some e \<Rightarrow>
                Some ((of_nat (digits_value 10 ip)
                       + of_nat (digits_value 10 fp) / 10 ^ length fp) * pow10 e)))"

definition radix_of :: "char \<Rightarrow> nat option" where
  "radix_of c =
     (if c = CHR ''x'' \<or> c = CHR ''X'' then Some 16
      else if c = CHR ''o'' \<or> c = CHR ''O'' then Some 8
      else if c = CHR ''b'' \<or> c = CHR ''B'' then Some 2
      else None)"

definition radix_literal :: "string \<Rightarrow> rat option" where
  \<comment> \<open>\<^verbatim>\<open>0x\<close>, \<^verbatim>\<open>0o\<close> or \<^verbatim>\<open>0b\<close> and at least one digit of that base\<close>
  "radix_literal s =
     (case s of
        z # c # d # ds \<Rightarrow>
          (if z = CHR ''0'' then
             (case radix_of c of
                None \<Rightarrow> None
              | Some base \<Rightarrow>
                  if list_all (is_digit_in base) (d # ds)
                  then Some (of_nat (digits_value base (d # ds)))
                  else None)
           else None)
      | _ \<Rightarrow> None)"

definition signed_decimal :: "string \<Rightarrow> jsnum" where
  "signed_decimal s =
     (let neg = (case s of [] \<Rightarrow> False | c # _ \<Rightarrow> c = CHR ''-'');
          u = (case s of
                 [] \<Rightarrow> []
               | c # t \<Rightarrow> if c = CHR ''-'' \<or> c = CHR ''+'' then t else s)
      in if u = ''Infinity'' then (if neg then NegInf else PosInf)
         else
           (case unsigned_decimal u of
              None \<Rightarrow> NaN
            | Some q \<Rightarrow> fl (if neg then - q else q)))"

definition string_to_number :: "string \<Rightarrow> jsnum" where
  "string_to_number s =
     (let t = trim s
      in if t = [] then Fin 0
         else
           (case radix_literal t of
              Some q \<Rightarrow> fl q
            | None \<Rightarrow> signed_decimal t))"

subsection \<open>Values and thrown errors\<close>

datatype jsval =
    JUndefined
  | JNull
  | JBool bool
  | JNum jsnum
  | JStr string
  | JArr "jsval list"
  | JObj "(string \<times> jsval) list"

text \<open>
  What a \<^verbatim>\<open>catch (error: any)\<close> block of the controller reads off the value it
  caught: \<^verbatim>\<open>error.response\<close> (present on an axios failure that carries an HTTP
  response, with its \<^verbatim>\<open>status\<close> and \<^verbatim>\<open>data\<close>) and \<^verbatim>\<open>error.message\<close>.
\<close>

record axios_response =
  status :: nat
  data :: jsval

record js_error =
  response :: "axios_response option"
  message :: jsval

definition type_error :: "string \<Rightarrow> js_error" where
  \<comment> \<open>a \<^verbatim>\<open>TypeError\<close> raised by the engine: no \<^verbatim>\<open>response\<close>, the engine's sentence as message\<close>
  "type_error msg = \<lparr>response = None, message = JStr msg\<rparr>"

definition and_then :: "js_error + 'a \<Rightarrow> ('a \<Rightarrow> js_error + 'b) \<Rightarrow> js_error + 'b" where
  "and_then r f = (case r of Inl e \<Rightarrow> Inl e | Inr x \<Rightarrow> f x)"

definition nullish :: "jsval \<Rightarrow> bool" where
  "nullish v = (v = JUndefined \<or> v = JNull)"

fun read_prop :: "jsval \<Rightarrow> string \<Rightarrow> jsval" where
  \<comment> \<open>\<^verbatim>\<open>v.name\<close> on a value that is neither \<^verbatim>\<open>undefined\<close> nor \<^verbatim>\<open>null\<close>, for the names the
      controller reads (none of them is inherited from a prototype)\<close>
  "read_prop (JObj kvs) name = (case map_of kvs name of None \<Rightarrow> JUndefined | Some v \<Rightarrow> v)"
| "read_prop v name = JUndefined"

definition get_prop :: "jsval \<Rightarrow> string \<Rightarrow> js_error + jsval" where
  \<comment> \<open>\<^verbatim>\<open>v.name\<close>\<close>
  "get_prop v name =
     (if v = JUndefined then
        Inl (type_error (''Cannot read properties of undefined (reading '' @ [CHR 0x27] @ name @ [CHR 0x27] @ '')''))
      else if v = JNull then
        Inl (type_error (''Cannot read properties of null (reading '' @ [CHR 0x27] @ name @ [CHR 0x27] @ '')''))
      else Inr (read_prop v name))"

definition opt_prop :: "jsval \<Rightarrow> string \<Rightarrow> jsval" where
  \<comment> \<open>\<^verbatim>\<open>v?.name\<close>\<close>
  "opt_prop v name = (if nullish v then JUndefined else read_prop v name)"

fun truthy :: "jsval \<Rightarrow> bool" where
  "truthy JUndefined = False"
| "truthy JNull = False"
| "truthy (JBool b) = b"
| "truthy (JNum x) = (x \<noteq> Fin 0 \<and> x \<noteq> NaN)"
| "truthy (JStr s) = (s \<noteq> [])"
| "truthy (JArr xs) = True"
| "truthy (JObj kvs) = True"

definition js_or :: "jsval \<Rightarrow> jsval \<Rightarrow> jsval" where
  \<comment> \<open>\<^verbatim>\<open>a || b\<close>\<close>
  "js_or a b = (if truthy a then a else b)"

fun strict_eq :: "jsval \<Rightarrow> jsval \<Rightarrow> bool" where
  \<comment> \<open>\<^verbatim>\<open>a === b\<close>; two arrays or objects are equal only when they are the same reference,
      which two values read from different places of a request never are\<close>
  "strict_eq JUndefined JUndefined = True"
| "strict_eq JNull JNull = True"
| "strict_eq (JBool a) (JBool b) = (a = b)"
| "strict_eq (JNum a) (JNum b) = (a \<noteq> NaN \<and> a = b)"
| "strict_eq (JStr a) (JStr b) = (a = b)"
| "strict_eq a b = False"

fun to_string :: "jsval \<Rightarrow> js_error + string"
  and join_elements :: "jsval list \<Rightarrow> js_error + string" where
  \<comment> \<open>\<^verbatim>\<open>ToString\<close>, as a template literal applies it. An array joins its elements with
      commas; an object gives \<^verbatim>\<open>[object Object]\<close>, unless an own property hides
      \<^verbatim>\<open>Object.prototype.toString\<close> with something that cannot be called\<close>
  "to_string JUndefined = Inr ''undefined''"
| "to_string JNull = Inr ''null''"
| "to_string (JBool b) = Inr (if b then ''true'' else ''false'')"
| "to_string (JNum x) = Inr (num_to_string x)"
| "to_string (JStr s) = Inr s"
| "to_string (JArr xs) = join_elements xs"
| "to_string (JObj kvs) =
     (if ''toString'' \<in> fst ` set kvs then Inl (type_error ''Cannot convert object to primitive value'')
      else Inr ''[object Object]'')"
| "join_elements [] = Inr []"
| "join_elements (x # xs) =
     and_then (if nullish x then Inr [] else to_string x) (\<lambda>s.
       if xs = [] then Inr s else and_then (join_elements xs) (\<lambda>t. Inr (s @ '','' @ t)))"

definition method_toString :: "string \<Rightarrow> jsval \<Rightarrow> js_error + string" where
  \<comment> \<open>\<^verbatim>\<open>v.toString()\<close>; \<open>callee\<close> is the source text of \<^verbatim>\<open>v\<close>, which the engine quotes
      when an own property \<^verbatim>\<open>toString\<close> cannot be called\<close>
  "method_toString callee v =
     (case v of
        JObj kvs \<Rightarrow>
          (if ''toString'' \<in> fst ` set kvs
           then Inl (type_error (callee @ ''.toString is not a function''))
           else to_string v)
      | _ \<Rightarrow> and_then (get_prop v ''toString'') (\<lambda>_. to_string v))"

definition to_primitive :: "jsval \<Rightarrow> js_error + jsval" where
  "to_primitive v =
     (case v of
        JArr xs \<Rightarrow> and_then (to_string v) (\<lambda>s. Inr (JStr s))
      | JObj kvs \<Rightarrow> and_then (to_string v) (\<lambda>s. Inr (JStr s))
      | _ \<Rightarrow> Inr v)"

fun primitive_to_number :: "jsval \<Rightarrow> jsnum" where
  "primitive_to_number JUndefined = NaN"
| "primitive_to_number JNull = Fin 0"
| "primitive_to_number (JBool b) = (if b then Fin 1 else Fin 0)"
| "primitive_to_number (JNum x) = x"
| "primitive_to_number (JStr s) = string_to_number s"
| "primitive_to_number v = NaN"

definition js_lt :: "jsval \<Rightarrow> jsval \<Rightarrow> js_error + bool" where
  \<comment> \<open>\<^verbatim>\<open>a < b\<close>: two strings compare as strings, anything else as numbers\<close>
  "js_lt a b =
     and_then (to_primitive a) (\<lambda>pa.
     and_then (to_primitive b) (\<lambda>pb.
       Inr (case (pa, pb) of
              (JStr s, JStr t) \<Rightarrow> str_lt s t
            | _ \<Rightarrow> num_lt (primitive_to_number pa) (primitive_to_number pb))))"

definition js_mul :: "jsval \<Rightarrow> jsval \<Rightarrow> js_error + jsnum" where
  \<comment> \<open>\<^verbatim>\<open>a * b\<close>\<close>
  "js_mul a b =
     and_then (to_primitive a) (\<lambda>pa.
     and_then (to_primitive b) (\<lambda>pb.
       Inr (num_mul (primitive_to_number pa) (primitive_to_number pb))))"

definition iterate :: "jsval \<Rightarrow> js_error + jsval list" where
  \<comment> \<open>the values \<^verbatim>\<open>for (const item of v)\<close> visits\<close>
  "iterate v =
     (case v of
        JArr xs \<Rightarrow> Inr xs
      | JStr s \<Rightarrow> Inr (map (\<lambda>c. JStr [c]) s)
      | _ \<Rightarrow> Inl (type_error ''cartItems is not iterable''))"

section \<open>Requests, replies and the upstream API\<close>

text \<open>
  \<^verbatim>\<open>AuthRequest\<close> is declared in \<^verbatim>\<open>middleware/auth\<close>, which is not among the sources;
  the controller reads \<^verbatim>\<open>req.user?.id\<close>, \<^verbatim>\<open>req.body\<close>, \<^verbatim>\<open>req.params\<close> and the outcome
  of \<^verbatim>\<open>validationResult(req)\<close>. The tests build \<^verbatim>\<open>user: { id: 1, email: \<dots> }\<close> and
  \<^verbatim>\<open>headers: { authorization: "Bearer mock-token" }\<close>; the identifier is kept as a
  value, since the token decides whether it is a number or a string.
\<close>

record actor =
  actor_id :: jsval
  email :: string

record request =
  validation :: "jsval list"
  user :: "actor option"
  body :: jsval
  params :: "(string \<times> string) list"
  headers :: "(string \<times> string) list"

definition user_id_of :: "request \<Rightarrow> jsval" where
  \<comment> \<open>\<^verbatim>\<open>req.user?.id\<close>\<close>
  "user_id_of req = (case user req of None \<Rightarrow> JUndefined | Some u \<Rightarrow> actor_id u)"

definition param :: "request \<Rightarrow> string \<Rightarrow> jsval" where
  \<comment> \<open>\<^verbatim>\<open>req.params.name\<close>\<close>
  "param req name = (case map_of (params req) name of None \<Rightarrow> JUndefined | Some s \<Rightarrow> JStr s)"

text \<open>\<^verbatim>\<open>res.status(code).json(json)\<close>.\<close>

record reply =
  code :: nat
  json :: jsval

text \<open>
  One call of \<^verbatim>\<open>axios.get\<close>, \<^verbatim>\<open>post\<close>, \<^verbatim>\<open>put\<close> or \<^verbatim>\<open>delete\<close>: the URL, the
  payload of a \<^verbatim>\<open>post\<close> or \<^verbatim>\<open>put\<close>, and the request configuration (the argument that
  would carry headers) when one is passed.
\<close>

datatype verb = GET | POST | PUT | DELETE

record call =
  verb :: verb
  url :: string
  payload :: "jsval option"
  config :: "jsval option"

text \<open>
  The awaited promise is fulfilled with a response, of which the controller reads
  \<^verbatim>\<open>data\<close> only, or rejected with an error. The brewery API is any function from the
  calls this request has issued so far and the present call to such an outcome.
\<close>

datatype settled = Fulfilled jsval | Rejected js_error

type_synonym upstream = "call list \<Rightarrow> call \<Rightarrow> settled"

text \<open>
  The body of a \<^verbatim>\<open>try\<close> block: it runs against the upstream API, extends the list of
  calls issued, and ends with a value or with the error thrown.
\<close>

type_synonym 'a io = "upstream \<Rightarrow> call list \<Rightarrow> (js_error + 'a) \<times> call list"

definition io_return :: "'a \<Rightarrow> 'a io" where
  "io_return x = (\<lambda>up tr. (Inr x, tr))"

definition io_lift :: "js_error + 'a \<Rightarrow> 'a io" where
  "io_lift r = (\<lambda>up tr. (r, tr))"

definition io_bind :: "'a io \<Rightarrow> ('a \<Rightarrow> 'b io) \<Rightarrow> 'b io" where
  "io_bind m f = (\<lambda>up tr. case m up tr of (Inl e, tr') \<Rightarrow> (Inl e, tr') | (Inr x, tr') \<Rightarrow> f x up tr')"

definition axios :: "call \<Rightarrow> jsval io" where
  \<comment> \<open>\<^verbatim>\<open>(await axios.verb(\<dots>)).data\<close>\<close>
  "axios c = (\<lambda>up tr. (case up tr c of Fulfilled d \<Rightarrow> Inr d | Rejected e \<Rightarrow> Inl e, tr @ [c]))"

text \<open>
  A handler ends by sending one reply, or, where it throws outside its \<^verbatim>\<open>try\<close> block,
  by rejecting its promise with nothing sent.
\<close>

datatype outcome = Sent reply | Unhandled js_error

definition error_reply :: "string \<Rightarrow> js_error \<Rightarrow> reply" where
  \<comment> \<open>the \<^verbatim>\<open>catch\<close> block shared by the six handlers, up to the fallback message\<close>
  "error_reply fallback error =
     \<lparr>code = (case response error of
                None \<Rightarrow> 500
              | Some r \<Rightarrow> if status r = 0 then 500 else status r),
      json = JObj
        [(''message'',
            js_or (case response error of None \<Rightarrow> JUndefined | Some r \<Rightarrow> opt_prop (data r) ''message'')
              (JStr fallback)),
         (''error'',
            js_or (case response error of None \<Rightarrow> JUndefined | Some r \<Rightarrow> opt_prop (data r) ''errors'')
              (message error))]\<rparr>"

definition try_catch :: "reply io \<Rightarrow> string \<Rightarrow> upstream \<Rightarrow> outcome \<times> call list" where
  "try_catch block fallback up =
     (case block up [] of
        (Inl e, tr) \<Rightarrow> (Sent (error_reply fallback e), tr)
      | (Inr r, tr) \<Rightarrow> (Sent r, tr))"

definition unauthorized :: reply where
  "unauthorized = \<lparr>code = 403, json = JObj [(''message'', JStr ''Unauthorized'')]\<rparr>"

definition insufficient_stock :: reply where
  "insufficient_stock = \<lparr>code = 400, json = JObj [(''message'', JStr ''Insufficient stock'')]\<rparr>"

definition validation_failed :: "request \<Rightarrow> reply" where
  \<comment> \<open>\<^verbatim>\<open>res.status(400).json({ errors: errors.array() })\<close>\<close>
  "validation_failed req = \<lparr>code = 400, json = JObj [(''errors'', JArr (validation req))]\<rparr>"

section \<open>The six handlers of \<^verbatim>\<open>CartController\<close>\<close>

text \<open>
  Every handler takes \<^verbatim>\<open>config.breweryApiUrl\<close> (\<open>api\<close>; the configuration module is
  not among the sources), the upstream API and the request, and returns what it sent
  together with the upstream calls it issued, in order. \<^verbatim>\<open>console.error\<close> is left out.

  The controller calls \<^verbatim>\<open>axios.get(url)\<close>, \<^verbatim>\<open>axios.post(url, req.body)\<close>,
  \<^verbatim>\<open>axios.put(url, req.body)\<close> and \<^verbatim>\<open>axios.delete(url)\<close>: a URL, a payload for two of
  them, and no configuration argument.
\<close>

definition http_get :: "string \<Rightarrow> call" where
  "http_get u = \<lparr>verb = GET, url = u, payload = None, config = None\<rparr>"

definition http_post :: "string \<Rightarrow> jsval \<Rightarrow> call" where
  "http_post u d = \<lparr>verb = POST, url = u, payload = Some d, config = None\<rparr>"

definition http_put :: "string \<Rightarrow> jsval \<Rightarrow> call" where
  "http_put u d = \<lparr>verb = PUT, url = u, payload = Some d, config = None\<rparr>"

definition http_delete :: "string \<Rightarrow> call" where
  "http_delete u = \<lparr>verb = DELETE, url = u, payload = None, config = None\<rparr>"

definition id_differs :: "string \<Rightarrow> request \<Rightarrow> jsval \<Rightarrow> js_error + bool" where
  \<comment> \<open>\<^verbatim>\<open>req.user?.id !== holder.user_id.toString()\<close>, with \<^verbatim>\<open>req.body\<close> or
      \<^verbatim>\<open>cartItemResponse.data\<close> as holder; \<open>expr\<close> is that source text\<close>
  "id_differs expr req holder =
     and_then (get_prop holder ''user_id'') (\<lambda>v.
     and_then (method_toString (expr @ ''.user_id'') v) (\<lambda>owner.
       Inr (\<not> strict_eq (user_id_of req) (JStr owner))))"

definition path_id_differs :: "request \<Rightarrow> bool" where
  \<comment> \<open>\<^verbatim>\<open>req.user?.id !== req.params.user_id\<close>\<close>
  "path_id_differs req = (\<not> strict_eq (user_id_of req) (param req ''user_id''))"

definition stock_short :: "jsval \<Rightarrow> request \<Rightarrow> js_error + bool" where
  \<comment> \<open>\<^verbatim>\<open>inventoryResponse.data.stockQuantity < req.body.quantity\<close>\<close>
  "stock_short inventory req =
     and_then (get_prop inventory ''stockQuantity'') (\<lambda>stock.
     and_then (get_prop (body req) ''quantity'') (\<lambda>quantity.
       js_lt stock quantity))"

definition line_amount :: "jsval \<Rightarrow> jsval \<Rightarrow> js_error + jsnum" where
  \<comment> \<open>\<^verbatim>\<open>inventoryResponse.data.price * item.quantity\<close>\<close>
  "line_amount inventory item =
     and_then (get_prop inventory ''price'') (\<lambda>price.
     and_then (get_prop item ''quantity'') (\<lambda>quantity.
       js_mul price quantity))"

definition inventory_url :: "string \<Rightarrow> jsval \<Rightarrow> js_error + string" where
  \<comment> \<open>\<^verbatim>\<open>`${this.breweryApiUrl}/api/inventory/${holder.inventory_id}`\<close>\<close>
  "inventory_url api holder =
     and_then (get_prop holder ''inventory_id'') (\<lambda>v.
     and_then (to_string v) (\<lambda>s.
       Inr (api @ ''/api/inventory/'' @ s)))"

definition path_url :: "string \<Rightarrow> string \<Rightarrow> request \<Rightarrow> string \<Rightarrow> js_error + string" where
  \<comment> \<open>\<^verbatim>\<open>`${this.breweryApiUrl}<path>${req.params.<name>}`\<close>\<close>
  "path_url api path req name =
     and_then (to_string (param req name)) (\<lambda>s. Inr (api @ path @ s))"

definition addToCart_try :: "string \<Rightarrow> request \<Rightarrow> reply io" where
  "addToCart_try api req =
     io_bind (io_lift (inventory_url api (body req))) (\<lambda>u.
     io_bind (axios (http_get u)) (\<lambda>inventory.
     io_bind (io_lift (stock_short inventory req)) (\<lambda>short.
     if short then io_return insufficient_stock
     else
       io_bind (axios (http_post (api @ ''/api/cart/add'') (body req))) (\<lambda>created.
       io_return \<lparr>code = 201, json = created\<rparr>))))"

definition addToCart :: "string \<Rightarrow> upstream \<Rightarrow> request \<Rightarrow> outcome \<times> call list" where
  "addToCart api up req =
     (if validation req \<noteq> [] then (Sent (validation_failed req), [])
      else
        (case id_differs ''req.body'' req (body req) of
           Inl e \<Rightarrow> (Unhandled e, [])
         | Inr differs \<Rightarrow>
             if differs then (Sent unauthorized, [])
             else try_catch (addToCart_try api req) ''Error adding to cart'' up))"

definition getCart_try :: "string \<Rightarrow> request \<Rightarrow> reply io" where
  "getCart_try api req =
     io_bind (io_lift (path_url api ''/api/cart/'' req ''user_id'')) (\<lambda>u.
     io_bind (axios (http_get u)) (\<lambda>cart.
     io_return \<lparr>code = 200, json = cart\<rparr>))"

definition getCart :: "string \<Rightarrow> upstream \<Rightarrow> request \<Rightarrow> outcome \<times> call list" where
  "getCart api up req =
     (if path_id_differs req then (Sent unauthorized, [])
      else try_catch (getCart_try api req) ''Error getting cart'' up)"

definition updateCart_try :: "string \<Rightarrow> request \<Rightarrow> reply io" where
  "updateCart_try api req =
     io_bind (io_lift (path_url api ''/api/cart/item/'' req ''id'')) (\<lambda>u.
     io_bind (axios (http_get u)) (\<lambda>cartItem.
     io_bind (io_lift (id_differs ''cartItemResponse.data'' req cartItem)) (\<lambda>differs.
     if differs then io_return unauthorized
     else
       io_bind (io_lift (inventory_url api cartItem)) (\<lambda>u'.
       io_bind (axios (http_get u')) (\<lambda>inventory.
       io_bind (io_lift (stock_short inventory req)) (\<lambda>short.
       if short then io_return insufficient_stock
       else
         io_bind (io_lift (path_url api ''/api/cart/update/'' req ''id'')) (\<lambda>u''.
         io_bind (axios (http_put u'' (body req))) (\<lambda>updated.
         io_return \<lparr>code = 200, json = updated\<rparr>))))))))"

definition updateCart :: "string \<Rightarrow> upstream \<Rightarrow> request \<Rightarrow> outcome \<times> call list" where
  "updateCart api up req =
     (if validation req \<noteq> [] then (Sent (validation_failed req), [])
      else try_catch (updateCart_try api req) ''Error updating cart'' up)"

definition removeFromCart_try :: "string \<Rightarrow> request \<Rightarrow> reply io" where
  "removeFromCart_try api req =
     io_bind (io_lift (path_url api ''/api/cart/item/'' req ''id'')) (\<lambda>u.
     io_bind (axios (http_get u)) (\<lambda>cartItem.
     io_bind (io_lift (id_differs ''cartItemResponse.data'' req cartItem)) (\<lambda>differs.
     if differs then io_return unauthorized
     else
       io_bind (io_lift (path_url api ''/api/cart/remove/'' req ''id'')) (\<lambda>u'.
       io_bind (axios (http_delete u')) (\<lambda>removed.
       io_return \<lparr>code = 200, json = removed\<rparr>)))))"

definition removeFromCart :: "string \<Rightarrow> upstream \<Rightarrow> request \<Rightarrow> outcome \<times> call list" where
  "removeFromCart api up req =
     try_catch (removeFromCart_try api req) ''Error removing from cart'' up"

definition clearCart_try :: "string \<Rightarrow> request \<Rightarrow> reply io" where
  "clearCart_try api req =
     io_bind (io_lift (path_url api ''/api/cart/clear/'' req ''user_id'')) (\<lambda>u.
     io_bind (axios (http_delete u)) (\<lambda>cleared.
     io_return \<lparr>code = 200, json = JObj [(''message'', JStr ''Cart cleared successfully'')]\<rparr>))"

definition clearCart :: "string \<Rightarrow> upstream \<Rightarrow> request \<Rightarrow> outcome \<times> call list" where
  "clearCart api up req =
     (if path_id_differs req then (Sent unauthorized, [])
      else try_catch (clearCart_try api req) ''Error clearing cart'' up)"

fun total_loop :: "string \<Rightarrow> jsval list \<Rightarrow> jsnum \<Rightarrow> jsnum io" where
  \<comment> \<open>the \<^verbatim>\<open>for\<close> loop of \<^verbatim>\<open>getCartTotal\<close>, from the items still to visit and the
      running \<^verbatim>\<open>total\<close> (\<open>tot\<close>)\<close>
  "total_loop api [] tot = io_return tot"
| "total_loop api (item # items) tot =
     io_bind (io_lift (inventory_url api item)) (\<lambda>u.
     io_bind (axios (http_get u)) (\<lambda>inventory.
     io_bind (io_lift (line_amount inventory item)) (\<lambda>amount.
     total_loop api items (num_add tot amount))))"

definition getCartTotal_try :: "string \<Rightarrow> request \<Rightarrow> reply io" where
  "getCartTotal_try api req =
     io_bind (io_lift (path_url api ''/api/cart/'' req ''user_id'')) (\<lambda>u.
     io_bind (axios (http_get u)) (\<lambda>cartItems.
     io_bind (io_lift (iterate cartItems)) (\<lambda>items.
     io_bind (total_loop api items (Fin 0)) (\<lambda>tot.
     io_return \<lparr>code = 200, json = JObj [(''total'', JNum tot)]\<rparr>))))"

definition getCartTotal :: "string \<Rightarrow> upstream \<Rightarrow> request \<Rightarrow> outcome \<times> call list" where
  "getCartTotal api up req =
     (if path_id_differs req then (Sent unauthorized, [])
      else try_catch (getCartTotal_try api req) ''Error calculating cart total'' up)"

section \<open>Operations, observations and test doubles\<close>

text \<open>
  The routes (\<^verbatim>\<open>POST /add\<close>, \<^verbatim>\<open>GET /:user_id\<close>, \<^verbatim>\<open>PUT /update/:id\<close>,
  \<^verbatim>\<open>DELETE /remove/:id\<close>, \<^verbatim>\<open>DELETE /clear/:user_id\<close>, \<^verbatim>\<open>GET /:user_id/total\<close>) name
  one method of the controller each.
\<close>

datatype operation = AddToCart | GetCart | UpdateCart | RemoveFromCart | ClearCart | GetCartTotal

fun handle :: "operation \<Rightarrow> string \<Rightarrow> upstream \<Rightarrow> request \<Rightarrow> outcome \<times> call list" where
  "handle AddToCart = addToCart"
| "handle GetCart = getCart"
| "handle UpdateCart = updateCart"
| "handle RemoveFromCart = removeFromCart"
| "handle ClearCart = clearCart"
| "handle GetCartTotal = getCartTotal"

fun fallback_message :: "operation \<Rightarrow> string" where
  "fallback_message AddToCart = ''Error adding to cart''"
| "fallback_message GetCart = ''Error getting cart''"
| "fallback_message UpdateCart = ''Error updating cart''"
| "fallback_message RemoveFromCart = ''Error removing from cart''"
| "fallback_message ClearCart = ''Error clearing cart''"
| "fallback_message GetCartTotal = ''Error calculating cart total''"

fun success_code :: "operation \<Rightarrow> nat" where
  "success_code AddToCart = 201"
| "success_code op = 200"

definition has_message :: "reply \<Rightarrow> bool" where
  \<comment> \<open>the JSON body is an object with a \<^verbatim>\<open>message\<close> field that holds something:
      \<^verbatim>\<open>res.json\<close> leaves out a field whose value is \<^verbatim>\<open>undefined\<close>, and an empty or
      \<^verbatim>\<open>null\<close> message does not count either\<close>
  "has_message r =
     (case json r of
        JObj kvs \<Rightarrow> (case map_of kvs ''message'' of None \<Rightarrow> False | Some v \<Rightarrow> truthy v)
      | _ \<Rightarrow> False)"

definition fulfilled :: "settled \<Rightarrow> bool" where
  "fulfilled s = (case s of Fulfilled d \<Rightarrow> True | Rejected e \<Rightarrow> False)"

fun replies :: "upstream \<Rightarrow> call list \<Rightarrow> call list \<Rightarrow> settled list" where
  \<comment> \<open>what the upstream API answers to the calls \<open>cs\<close>, issued in this order after the
      calls \<open>pre\<close>\<close>
  "replies up pre [] = []"
| "replies up pre (c # cs) = up pre c # replies up (pre @ [c]) cs"

fun consistent :: "upstream \<Rightarrow> call list \<Rightarrow> call list \<Rightarrow> js_error + 'a \<Rightarrow> bool" where
  \<comment> \<open>of the calls issued, each was fulfilled except possibly the last, and a rejection
      of the last is the error the block ended with\<close>
  "consistent up pre [] r = True"
| "consistent up pre (c # cs) r =
     (case up pre c of
        Fulfilled d \<Rightarrow> consistent up (pre @ [c]) cs r
      | Rejected e \<Rightarrow> cs = [] \<and> r = Inl e)"

definition well_reported :: "upstream \<Rightarrow> nat \<Rightarrow> (js_error + reply) \<times> call list \<Rightarrow> bool" where
  \<comment> \<open>what every \<^verbatim>\<open>try\<close> block of the controller maintains: no call carries a
      configuration, the calls and the result are consistent, and a reply without a
      message is the reply of the completed operation\<close>
  "well_reported up k res =
     (case res of (r, tr) \<Rightarrow>
        list_all (\<lambda>c. config c = None) tr
        \<and> consistent up [] tr r
        \<and> (case r of Inl e \<Rightarrow> True | Inr rep \<Rightarrow> has_message rep \<or> (code rep = k \<and> tr \<noteq> [])))"

text \<open>
  The fixtures of \<^verbatim>\<open>cartController.test.ts\<close>: the request built before each test, the
  base URL the configuration falls back to, the bodies and upstream records the tests
  use, and upstream doubles in the manner of \<^verbatim>\<open>mockResolvedValue\<close> (one answer to
  every call) and of a chain of \<^verbatim>\<open>mockResolvedValueOnce\<close> (answers handed out in
  order). \<open>owner_request\<close> is the same request from a token whose id is the string "1".
\<close>

definition local_api :: string where
  "local_api = ''http://localhost:5089''"

definition mock_request :: request where
  "mock_request =
     \<lparr>validation = [],
      user = Some \<lparr>actor_id = JNum (Fin 1), email = ''test@example.com''\<rparr>,
      body = JObj [],
      params = [],
      headers = [(''authorization'', ''Bearer mock-token'')]\<rparr>"

definition owner_request :: request where
  "owner_request = mock_request\<lparr>user := Some \<lparr>actor_id = JStr ''1'', email = ''test@example.com''\<rparr>\<rparr>"

definition add_body :: jsval where
  "add_body = JObj [(''user_id'', JStr ''1''), (''inventory_id'', JStr ''1''), (''quantity'', JNum (Fin 2))]"


definition cart_item :: jsval where
  "cart_item = JObj [(''user_id'', JNum (Fin 1)), (''inventory_id'', JNum (Fin 1))]"

definition update_body :: jsval where
  "update_body = JObj [(''quantity'', JNum (Fin 3))]"



definition line :: "rat \<Rightarrow> rat \<Rightarrow> jsval" where
  \<comment> \<open>a cart item \<^verbatim>\<open>{ inventory_id: i, quantity: q }\<close>\<close>
  "line i q = JObj [(''inventory_id'', JNum (Fin i)), (''quantity'', JNum (Fin q))]"

definition priced :: "jsnum \<Rightarrow> jsval" where
  \<comment> \<open>an inventory record \<^verbatim>\<open>{ price: p }\<close>\<close>
  "priced p = JObj [(''price'', JNum p)]"

definition network_error :: js_error where
  \<comment> \<open>\<^verbatim>\<open>new Error("Network error")\<close>\<close>
  "network_error = \<lparr>response = None, message = JStr ''Network error''\<rparr>"

definition mock_not_found :: js_error where
  \<comment> \<open>the rejection mocked by the tests:
      \<^verbatim>\<open>{ response: { status: 404, data: { message: "Cart item not found" } } }\<close>\<close>
  "mock_not_found =
     \<lparr>response = Some \<lparr>status = 404, data = JObj [(''message'', JStr ''Cart item not found'')]\<rparr>,
      message = JUndefined\<rparr>"

definition not_found_error :: js_error where
  \<comment> \<open>the error axios itself builds from that 404 answer: an \<^verbatim>\<open>Error\<close> with the
      response attached and with a message of its own\<close>
  "not_found_error =
     \<lparr>response = Some \<lparr>status = 404, data = JObj [(''message'', JStr ''Cart item not found'')]\<rparr>,
      message = JStr ''Request failed with status code 404''\<rparr>"


definition always :: "settled \<Rightarrow> upstream" where
  "always r = (\<lambda>tr c. r)"


definition shop :: "jsval \<Rightarrow> (string \<times> jsval) list \<Rightarrow> upstream" where
  \<comment> \<open>the first call is answered with the cart, every later one with the record listed
      for its URL\<close>
  "shop cart inventory =
     (\<lambda>tr c. if tr = [] then Fulfilled cart
             else (case map_of inventory (url c) of
                     Some record \<Rightarrow> Fulfilled record
                   | None \<Rightarrow> Rejected network_error))"

section \<open>Running a block\<close>

lemma run_io_return [simp]: "io_return x up tr = (Inr x, tr)"
  by (simp add: io_return_def)

lemma run_io_lift [simp]: "io_lift r up tr = (r, tr)"
  by (simp add: io_lift_def)

lemma run_io_bind:
  "io_bind m f up tr = (case m up tr of (Inl e, tr') \<Rightarrow> (Inl e, tr') | (Inr x, tr') \<Rightarrow> f x up tr')"
  by (simp add: io_bind_def)

lemma run_axios:
  "axios c up tr = (case up tr c of Fulfilled d \<Rightarrow> Inr d | Rejected e \<Rightarrow> Inl e, tr @ [c])"
  by (simp add: axios_def)

lemma always_run: "always r tr c = r"
  by (simp add: always_def)


lemma shop_first: "shop cart inventory [] c = Fulfilled cart"
  by (simp add: shop_def)

lemma shop_later:
  "shop cart inventory (c0 # tr) (http_get u')
     = (case map_of inventory u' of Some record \<Rightarrow> Fulfilled record | None \<Rightarrow> Rejected network_error)"
  by (simp add: shop_def http_get_def)

section \<open>Conversions at the values of the tests\<close>

lemma method_toString_number: "method_toString callee (JNum x) = Inr (num_to_string x)"
  by (simp add: method_toString_def get_prop_def and_then_def)

lemma method_toString_string: "method_toString callee (JStr s) = Inr s"
  by (simp add: method_toString_def get_prop_def and_then_def)

lemma num_to_string_1: "num_to_string (Fin 1) = ''1''"
  by code_simp

lemma num_to_string_2: "num_to_string (Fin 2) = ''2''"
  by code_simp

lemma num_to_string_3: "num_to_string (Fin 3) = ''3''"
  by code_simp




lemma owner_path_passes: "\<not> path_id_differs (owner_request\<lparr>params := [(''user_id'', ''1'')]\<rparr>)"
  by (simp add: path_id_differs_def user_id_of_def param_def owner_request_def mock_request_def)



lemma line_inventory_url:
  "inventory_url local_api (line 1 q) = Inr ''http://localhost:5089/api/inventory/1''"
  "inventory_url local_api (line 2 q) = Inr ''http://localhost:5089/api/inventory/2''"
  "inventory_url local_api (line 3 q) = Inr ''http://localhost:5089/api/inventory/3''"
  by (simp_all add: inventory_url_def line_def get_prop_def and_then_def local_api_def
      num_to_string_1 num_to_string_2 num_to_string_3 del: num_to_string.simps)

lemma path_url_1:
  "path_url local_api path (r\<lparr>params := [(name, ''1'')], body := b\<rparr>) name
     = Inr (''http://localhost:5089'' @ path @ ''1'')"
  by (simp add: path_url_def param_def and_then_def local_api_def)

lemma owner_cart_url:
  "path_url local_api ''/api/cart/'' (owner_request\<lparr>params := [(''user_id'', ''1'')]\<rparr>) ''user_id''
     = Inr ''http://localhost:5089/api/cart/1''"
  by (simp add: path_url_def param_def and_then_def local_api_def)

lemma line_amount_priced: "line_amount (priced p) (line i q) = Inr (num_mul p (Fin q))"
  by (simp add: line_amount_def priced_def line_def get_prop_def and_then_def js_mul_def
      to_primitive_def)

section \<open>Validation comes first\<close>

text \<open>
  C7. When \<^verbatim>\<open>validationResult(req)\<close> is not empty, \<^verbatim>\<open>addToCart\<close> and \<^verbatim>\<open>updateCart\<close>
  answer 400 with the whole list of field errors and issue no upstream call, whoever
  the caller is and whatever the body holds: the check stands before the authorization
  check and before any network I/O.
\<close>

theorem validation_failure_short_circuits:
  "validation req \<noteq> [] \<Longrightarrow>
     addToCart api up req = (Sent \<lparr>code = 400, json = JObj [(''errors'', JArr (validation req))]\<rparr>, [])
     \<and> updateCart api up req = (Sent \<lparr>code = 400, json = JObj [(''errors'', JArr (validation req))]\<rparr>, [])"
  by (simp add: addToCart_def updateCart_def validation_failed_def)

text \<open>
  The request of the test "should return 400 if validation fails", sent here without
  any authenticated user and against an upstream that is down.
\<close>

theorem validation_failure_short_circuits_witness:
  "validation (mock_request\<lparr>validation := [JObj [(''msg'', JStr ''Quantity must be at least 1'')]],
                             user := None\<rparr>) \<noteq> []
   \<and> addToCart local_api (always (Rejected network_error))
         (mock_request\<lparr>validation := [JObj [(''msg'', JStr ''Quantity must be at least 1'')]],
                       user := None\<rparr>)
       = (Sent \<lparr>code = 400,
                json = JObj [(''errors'', JArr [JObj [(''msg'', JStr ''Quantity must be at least 1'')]])]\<rparr>, [])
   \<and> updateCart local_api (always (Rejected network_error))
         (mock_request\<lparr>validation := [JObj [(''msg'', JStr ''Quantity must be at least 1'')]],
                       user := None\<rparr>)
       = (Sent \<lparr>code = 400,
                json = JObj [(''errors'', JArr [JObj [(''msg'', JStr ''Quantity must be at least 1'')]])]\<rparr>, [])"
  using validation_failure_short_circuits
    [of "mock_request\<lparr>validation := [JObj [(''msg'', JStr ''Quantity must be at least 1'')]],
                       user := None\<rparr>" local_api "always (Rejected network_error)"]
  by (simp add: mock_request_def)

section \<open>The authorization checks\<close>

text \<open>
  C1. The request of the test "should add to cart successfully": the caller's id is the
  number 1 and \<^verbatim>\<open>body.user_id\<close> is the string "1", so that the id equals
  \<^verbatim>\<open>parseInt(body.user_id)\<close>. The handler compares the number with a string by
  \<^verbatim>\<open>!==\<close> and answers 403 without any upstream call, whatever the upstream would say.
\<close>

theorem addToCart_rejects_own_numeric_id:
  "addToCart local_api up (mock_request\<lparr>body := add_body\<rparr>)
   = (Sent \<lparr>code = 403, json = JObj [(''message'', JStr ''Unauthorized'')]\<rparr>, [])"
  by (simp add: addToCart_def mock_request_def add_body_def id_differs_def get_prop_def
      and_then_def method_toString_string user_id_of_def unauthorized_def)

text \<open>
  C2. The requests of the tests "should get cart successfully", "should clear cart
  successfully" and "should get cart total successfully": the caller's id is the
  number 1 and the path \<^verbatim>\<open>user_id\<close> is "1", the id converted to a string. The three
  handlers answer 403 without any upstream call.
\<close>

theorem path_check_rejects_own_numeric_id:
  "getCart local_api up (mock_request\<lparr>params := [(''user_id'', ''1'')]\<rparr>)
     = (Sent \<lparr>code = 403, json = JObj [(''message'', JStr ''Unauthorized'')]\<rparr>, [])
   \<and> clearCart local_api up (mock_request\<lparr>params := [(''user_id'', ''1'')]\<rparr>)
     = (Sent \<lparr>code = 403, json = JObj [(''message'', JStr ''Unauthorized'')]\<rparr>, [])
   \<and> getCartTotal local_api up (mock_request\<lparr>params := [(''user_id'', ''1'')]\<rparr>)
     = (Sent \<lparr>code = 403, json = JObj [(''message'', JStr ''Unauthorized'')]\<rparr>, [])"
  by (simp add: getCart_def clearCart_def getCartTotal_def mock_request_def path_id_differs_def
      user_id_of_def param_def unauthorized_def)

text \<open>
  C3. The requests of the tests "should update cart successfully" and "should remove
  from cart successfully": the caller's id is the number 1 and the fetched cart item
  belongs to user 1. Both handlers fetch the item, then answer 403: the id, a number, is
  compared by \<^verbatim>\<open>!==\<close> with the owner converted to a string.
\<close>

theorem item_check_rejects_own_numeric_id:
  "updateCart local_api (always (Fulfilled cart_item))
     (mock_request\<lparr>params := [(''id'', ''1'')], body := update_body\<rparr>)
   = (Sent \<lparr>code = 403, json = JObj [(''message'', JStr ''Unauthorized'')]\<rparr>,
      [\<lparr>verb = GET, url = ''http://localhost:5089/api/cart/item/1'', payload = None, config = None\<rparr>])
   \<and> removeFromCart local_api (always (Fulfilled (JObj [(''user_id'', JNum (Fin 1))])))
     (mock_request\<lparr>params := [(''id'', ''1'')]\<rparr>)
   = (Sent \<lparr>code = 403, json = JObj [(''message'', JStr ''Unauthorized'')]\<rparr>,
      [\<lparr>verb = GET, url = ''http://localhost:5089/api/cart/item/1'', payload = None, config = None\<rparr>])"
  by (simp add: updateCart_def removeFromCart_def updateCart_try_def removeFromCart_try_def
      try_catch_def run_io_bind run_axios always_def mock_request_def local_api_def cart_item_def
      path_url_def param_def id_differs_def get_prop_def and_then_def method_toString_number
      user_id_of_def unauthorized_def http_get_def)

section \<open>The stock check\<close>






section \<open>What every handler maintains\<close>

lemma consistent_rejected:
  "consistent up pre0 (pre @ c # post) r \<Longrightarrow> up (pre0 @ pre) c = Rejected e \<Longrightarrow>
     post = [] \<and> r = Inl e"
proof (induction pre arbitrary: pre0)
  case Nil
  then show ?case by simp
next
  case (Cons x pre)
  from Cons.prems(1) have "consistent up (pre0 @ [x]) (pre @ c # post) r"
    by (simp split: settled.splits)
  moreover from Cons.prems(2) have "up ((pre0 @ [x]) @ pre) c = Rejected e"
    by simp
  ultimately show ?case by (rule Cons.IH)
qed

lemma consistent_fulfilled:
  "consistent up pre tr (Inr x) \<Longrightarrow> list_all fulfilled (replies up pre tr)"
  by (induction tr arbitrary: pre) (auto simp: fulfilled_def split: settled.splits)

lemma consistent_result:
  "consistent up pre tr r \<Longrightarrow>
     consistent up pre tr (case r of Inl e \<Rightarrow> Inl e | Inr x \<Rightarrow> Inr (f x))"
  by (induction tr arbitrary: pre) (auto split: settled.splits)

lemma total_loop_calls:
  "total_loop api items t up tr0 = (r, tr1) \<Longrightarrow>
     \<exists>ext. tr1 = tr0 @ ext \<and> list_all (\<lambda>c. config c = None) ext \<and> consistent up tr0 ext r"
proof (induction items arbitrary: t tr0 r tr1)
  case Nil
  then show ?case by simp
next
  case (Cons item items)
  show ?case
  proof (cases "inventory_url api item")
    case (Inl e)
    with Cons.prems show ?thesis by (simp add: run_io_bind)
  next
    case (Inr u)
    show ?thesis
    proof (cases "up tr0 (http_get u)")
      case (Rejected e)
      with Cons.prems Inr have "tr1 = tr0 @ [http_get u]" "r = Inl e"
        by (auto simp: run_io_bind run_axios)
      with Rejected show ?thesis by (simp add: http_get_def)
    next
      case (Fulfilled inventory)
      show ?thesis
      proof (cases "line_amount inventory item")
        case (Inl e)
        with Cons.prems Inr Fulfilled have "tr1 = tr0 @ [http_get u]"
          by (auto simp: run_io_bind run_axios)
        with Fulfilled show ?thesis by (simp add: http_get_def)
      next
        case (Inr amount)
        with Cons.prems \<open>inventory_url api item = Inr u\<close> Fulfilled
        have "total_loop api items (num_add t amount) up (tr0 @ [http_get u]) = (r, tr1)"
          by (simp add: run_io_bind run_axios)
        from Cons.IH [OF this] obtain ext where
          ext: "tr1 = (tr0 @ [http_get u]) @ ext" "list_all (\<lambda>c. config c = None) ext"
               "consistent up (tr0 @ [http_get u]) ext r"
          by blast
        with Fulfilled
        have "tr1 = tr0 @ (http_get u # ext) \<and> list_all (\<lambda>c. config c = None) (http_get u # ext)
            \<and> consistent up tr0 (http_get u # ext) r"
          by (simp add: http_get_def)
        then show ?thesis by blast
      qed
    qed
  qed
qed

lemma addToCart_try_reported: "well_reported up 201 (addToCart_try api req up [])"
  by (auto simp: well_reported_def addToCart_try_def run_io_bind run_axios
      http_get_def http_post_def has_message_def insufficient_stock_def
      split: sum.splits settled.splits)

lemma getCart_try_reported: "well_reported up 200 (getCart_try api req up [])"
  by (auto simp: well_reported_def getCart_try_def run_io_bind run_axios
      http_get_def split: sum.splits settled.splits)

lemma updateCart_try_reported: "well_reported up 200 (updateCart_try api req up [])"
  by (auto simp: well_reported_def updateCart_try_def run_io_bind run_axios
      http_get_def http_put_def has_message_def insufficient_stock_def unauthorized_def
      split: sum.splits settled.splits)

lemma removeFromCart_try_reported: "well_reported up 200 (removeFromCart_try api req up [])"
  by (auto simp: well_reported_def removeFromCart_try_def run_io_bind run_axios
      http_get_def http_delete_def has_message_def unauthorized_def
      split: sum.splits settled.splits)

lemma clearCart_try_reported: "well_reported up 200 (clearCart_try api req up [])"
  by (auto simp: well_reported_def clearCart_try_def run_io_bind run_axios
      http_delete_def has_message_def split: sum.splits settled.splits)

lemma getCartTotal_try_reported: "well_reported up 200 (getCartTotal_try api req up [])"
proof (cases "path_url api ''/api/cart/'' req ''user_id''")
  case (Inl e)
  then show ?thesis
    by (simp add: well_reported_def getCartTotal_try_def run_io_bind)
next
  case (Inr u)
  show ?thesis
  proof (cases "up [] (http_get u)")
    case (Rejected e)
    with Inr show ?thesis
      by (simp add: well_reported_def getCartTotal_try_def run_io_bind run_axios http_get_def)
  next
    case (Fulfilled cartItems)
    show ?thesis
    proof (cases "iterate cartItems")
      case (Inl e)
      with \<open>path_url api ''/api/cart/'' req ''user_id'' = Inr u\<close> Fulfilled show ?thesis
        by (simp add: well_reported_def getCartTotal_try_def run_io_bind run_axios http_get_def)
    next
      case (Inr items)
      obtain r tr1 where loop: "total_loop api items (Fin 0) up [http_get u] = (r, tr1)"
        by (cases "total_loop api items (Fin 0) up [http_get u]") blast
      from total_loop_calls [OF this] obtain ext where
        ext: "tr1 = [http_get u] @ ext" "list_all (\<lambda>c. config c = None) ext"
             "consistent up [http_get u] ext r"
        by blast
      have run: "getCartTotal_try api req up []
          = (case r of Inl e \<Rightarrow> Inl e
             | Inr tot \<Rightarrow> Inr \<lparr>code = 200, json = JObj [(''total'', JNum tot)]\<rparr>, tr1)"
        using \<open>path_url api ''/api/cart/'' req ''user_id'' = Inr u\<close> Fulfilled Inr loop
        by (simp add: getCartTotal_try_def run_io_bind run_axios split: sum.splits)
      have "consistent up [] tr1 r"
        using ext(1,3) Fulfilled by simp
      then have "consistent up [] tr1
          (case r of Inl e \<Rightarrow> Inl e
           | Inr tot \<Rightarrow> Inr \<lparr>code = 200, json = JObj [(''total'', JNum tot)]\<rparr>)"
        by (rule consistent_result)
      with ext(1,2) show ?thesis
        by (cases r) (simp_all add: run well_reported_def http_get_def)
    qed
  qed
qed

lemma has_message_error_reply: "fb \<noteq> [] \<Longrightarrow> has_message (error_reply fb e)"
  by (simp add: has_message_def error_reply_def js_or_def)

lemma has_message_unauthorized: "has_message unauthorized"
  by (simp add: has_message_def unauthorized_def)

lemma try_catch_reported:
  assumes "well_reported up k (block up [])" and "try_catch block fb up = (out, tr)"
    and "fb \<noteq> []"
  shows "list_all (\<lambda>c. config c = None) tr"
    and "tr = pre @ c # post \<Longrightarrow> up pre c = Rejected e \<Longrightarrow>
           post = [] \<and> out = Sent (error_reply fb e)"
    and "out = Sent rep \<Longrightarrow>
           has_message rep \<or> (code rep = k \<and> tr \<noteq> [] \<and> list_all fulfilled (replies up [] tr))"
proof -
  obtain r where run: "block up [] = (r, tr)"
    and out: "out = (case r of Inl e \<Rightarrow> Sent (error_reply fb e) | Inr rep \<Rightarrow> Sent rep)"
    using assms(2) by (auto simp: try_catch_def split: prod.splits sum.splits)
  from assms(1) run have wr: "list_all (\<lambda>c. config c = None) tr"
      "consistent up [] tr r"
      "case r of Inl e \<Rightarrow> True | Inr rep \<Rightarrow> has_message rep \<or> (code rep = k \<and> tr \<noteq> [])"
    by (simp_all add: well_reported_def)
  show "list_all (\<lambda>c. config c = None) tr" by (rule wr(1))
  show "post = [] \<and> out = Sent (error_reply fb e)" if "tr = pre @ c # post" "up pre c = Rejected e"
    using consistent_rejected [of up "[]" pre c post r e] that wr(2) out by simp
  show "has_message rep \<or> (code rep = k \<and> tr \<noteq> [] \<and> list_all fulfilled (replies up [] tr))"
    if "out = Sent rep"
  proof (cases r)
    case (Inl e')
    with that out have "rep = error_reply fb e'" by simp
    with assms(3) show ?thesis by (simp add: has_message_error_reply)
  next
    case (Inr rep')
    with that out have "rep' = rep" by simp
    with wr(2,3) Inr consistent_fulfilled [of up "[]" tr rep] show ?thesis
      by auto
  qed
qed

lemma handle_reported:
  assumes "handle op api up req = (out, tr)"
  shows "list_all (\<lambda>c. config c = None) tr"
    and "tr = pre @ c # post \<Longrightarrow> up pre c = Rejected e \<Longrightarrow>
           post = [] \<and> out = Sent (error_reply (fallback_message op) e)"
    and "out = Sent rep \<Longrightarrow>
           has_message rep
           \<or> (validation req \<noteq> [] \<and> rep = validation_failed req)
           \<or> (code rep = success_code op \<and> tr \<noteq> [] \<and> list_all fulfilled (replies up [] tr))"
proof -
  have "list_all (\<lambda>c. config c = None) tr
    \<and> (tr = pre @ c # post \<longrightarrow> up pre c = Rejected e \<longrightarrow>
         post = [] \<and> out = Sent (error_reply (fallback_message op) e))
    \<and> (out = Sent rep \<longrightarrow>
           has_message rep
           \<or> (validation req \<noteq> [] \<and> rep = validation_failed req)
           \<or> (code rep = success_code op \<and> tr \<noteq> [] \<and> list_all fulfilled (replies up [] tr)))"
  proof (cases op)
    case AddToCart
    show ?thesis
    proof (cases "validation req \<noteq> [] \<or> id_differs ''req.body'' req (body req) \<noteq> Inr False")
      case True
      with assms AddToCart show ?thesis
        by (auto simp: addToCart_def has_message_unauthorized split: if_splits sum.splits)
    next
      case False
      with assms AddToCart
      have "try_catch (addToCart_try api req) ''Error adding to cart'' up = (out, tr)"
        by (simp add: addToCart_def)
      from try_catch_reported [OF addToCart_try_reported this, simplified] AddToCart show ?thesis
        by auto
    qed
  next
    case GetCart
    show ?thesis
    proof (cases "path_id_differs req")
      case True
      with assms GetCart show ?thesis
        by (auto simp: getCart_def has_message_unauthorized)
    next
      case False
      with assms GetCart
      have "try_catch (getCart_try api req) ''Error getting cart'' up = (out, tr)"
        by (simp add: getCart_def)
      from try_catch_reported [OF getCart_try_reported this, simplified] GetCart show ?thesis
        by auto
    qed
  next
    case UpdateCart
    show ?thesis
    proof (cases "validation req \<noteq> []")
      case True
      with assms UpdateCart show ?thesis
        by (auto simp: updateCart_def)
    next
      case False
      with assms UpdateCart
      have "try_catch (updateCart_try api req) ''Error updating cart'' up = (out, tr)"
        by (simp add: updateCart_def)
      from try_catch_reported [OF updateCart_try_reported this, simplified] UpdateCart show ?thesis
        by auto
    qed
  next
    case RemoveFromCart
    with assms
    have "try_catch (removeFromCart_try api req) ''Error removing from cart'' up = (out, tr)"
      by (simp add: removeFromCart_def)
    from try_catch_reported [OF removeFromCart_try_reported this, simplified] RemoveFromCart show ?thesis
      by auto
  next
    case ClearCart
    show ?thesis
    proof (cases "path_id_differs req")
      case True
      with assms ClearCart show ?thesis
        by (auto simp: clearCart_def has_message_unauthorized)
    next
      case False
      with assms ClearCart
      have "try_catch (clearCart_try api req) ''Error clearing cart'' up = (out, tr)"
        by (simp add: clearCart_def)
      from try_catch_reported [OF clearCart_try_reported this, simplified] ClearCart show ?thesis
        by auto
    qed
  next
    case GetCartTotal
    show ?thesis
    proof (cases "path_id_differs req")
      case True
      with assms GetCartTotal show ?thesis
        by (auto simp: getCartTotal_def has_message_unauthorized)
    next
      case False
      with assms GetCartTotal
      have "try_catch (getCartTotal_try api req) ''Error calculating cart total'' up = (out, tr)"
        by (simp add: getCartTotal_def)
      from try_catch_reported [OF getCartTotal_try_reported this, simplified] GetCartTotal show ?thesis
        by auto
    qed
  qed
  then show "list_all (\<lambda>c. config c = None) tr"
    and "tr = pre @ c # post \<Longrightarrow> up pre c = Rejected e \<Longrightarrow>
           post = [] \<and> out = Sent (error_reply (fallback_message op) e)"
    and "out = Sent rep \<Longrightarrow>
           has_message rep
           \<or> (validation req \<noteq> [] \<and> rep = validation_failed req)
           \<or> (code rep = success_code op \<and> tr \<noteq> [] \<and> list_all fulfilled (replies up [] tr))"
    by blast+
qed

section \<open>Upstream failures\<close>

text \<open>
  C6, as the code has it. Whenever an upstream call of any of the six operations is
  rejected, it is the last call issued and the reply is shaped from the error: without
  a response, status 500, the operation's fallback message and the error's own message
  as \<^verbatim>\<open>error\<close>; with a response of non-zero status whose body has a non-empty
  \<^verbatim>\<open>message\<close>, that status, that message, and as \<^verbatim>\<open>error\<close> the body's
  \<^verbatim>\<open>errors\<close> when there is one, the error's own message otherwise (so it is
  \<^verbatim>\<open>undefined\<close> only when the error has no message either).
\<close>

theorem upstream_failure_reply:
  "handle op api up req = (out, pre @ c # post) \<and> up pre c = Rejected e \<longrightarrow>
     post = []
     \<and> (response e = None \<longrightarrow>
        out = Sent \<lparr>code = 500,
                    json = JObj [(''message'', JStr (fallback_message op)), (''error'', message e)]\<rparr>)
     \<and> (\<forall>r. response e = Some r \<and> status r \<noteq> 0 \<and> truthy (opt_prop (data r) ''message'') \<longrightarrow>
        out = Sent \<lparr>code = status r,
                    json = JObj [(''message'', opt_prop (data r) ''message''),
                                 (''error'', if truthy (opt_prop (data r) ''errors'')
                                            then opt_prop (data r) ''errors'' else message e)]\<rparr>)"
proof (intro impI, elim conjE)
  assume run: "handle op api up req = (out, pre @ c # post)" and fail: "up pre c = Rejected e"
  have "post = [] \<and> out = Sent (error_reply (fallback_message op) e)"
    by (rule handle_reported(2) [OF run refl fail])
  then show "post = []
     \<and> (response e = None \<longrightarrow>
        out = Sent \<lparr>code = 500,
                    json = JObj [(''message'', JStr (fallback_message op)), (''error'', message e)]\<rparr>)
     \<and> (\<forall>r. response e = Some r \<and> status r \<noteq> 0 \<and> truthy (opt_prop (data r) ''message'') \<longrightarrow>
        out = Sent \<lparr>code = status r,
                    json = JObj [(''message'', opt_prop (data r) ''message''),
                                 (''error'', if truthy (opt_prop (data r) ''errors'')
                                            then opt_prop (data r) ''errors'' else message e)]\<rparr>)"
    by (simp add: error_reply_def js_or_def)
qed

lemma removeFromCart_first_call:
  "snd (removeFromCart local_api (always (Rejected e)) (mock_request\<lparr>params := [(''id'', ''1'')]\<rparr>))
     = [] @ http_get ''http://localhost:5089/api/cart/item/1'' # []"
  by (simp add: removeFromCart_def try_catch_def removeFromCart_try_def run_io_bind run_axios
      path_url_def param_def and_then_def local_api_def always_run)

lemma removeFromCart_not_found:
  "removeFromCart local_api (always (Rejected not_found_error)) (mock_request\<lparr>params := [(''id'', ''1'')]\<rparr>)
     = (Sent \<lparr>code = 404,
              json = JObj [(''message'', JStr ''Cart item not found''),
                           (''error'', JStr ''Request failed with status code 404'')]\<rparr>,
        [http_get ''http://localhost:5089/api/cart/item/1''])"
  apply (simp add: removeFromCart_def try_catch_def removeFromCart_try_def run_io_bind run_axios
      path_url_def param_def and_then_def local_api_def always_run)
  apply (simp add: error_reply_def not_found_error_def opt_prop_def nullish_def js_or_def)
  done

text \<open>
  The requests of the tests "should handle error without response" and "should handle
  API error on cart item fetch" of \<^verbatim>\<open>removeFromCart\<close>, with the rejections the tests
  mock: the second has a response and no message of its own, and there the \<^verbatim>\<open>error\<close>
  field is \<^verbatim>\<open>undefined\<close>.
\<close>

theorem upstream_failure_reply_witness:
  "always (Rejected network_error) [] (http_get ''http://localhost:5089/api/cart/item/1'')
     = Rejected network_error
   \<and> response network_error = None
   \<and> fst (removeFromCart local_api (always (Rejected network_error))
          (mock_request\<lparr>params := [(''id'', ''1'')]\<rparr>))
     = Sent \<lparr>code = 500,
             json = JObj [(''message'', JStr ''Error removing from cart''),
                          (''error'', JStr ''Network error'')]\<rparr>
   \<and> always (Rejected mock_not_found) [] (http_get ''http://localhost:5089/api/cart/item/1'')
     = Rejected mock_not_found
   \<and> response mock_not_found
     = Some \<lparr>status = 404, data = JObj [(''message'', JStr ''Cart item not found'')]\<rparr>
   \<and> fst (removeFromCart local_api (always (Rejected mock_not_found))
          (mock_request\<lparr>params := [(''id'', ''1'')]\<rparr>))
     = Sent \<lparr>code = 404,
             json = JObj [(''message'', JStr ''Cart item not found''), (''error'', JUndefined)]\<rparr>"
proof -
  let ?req = "mock_request\<lparr>params := [(''id'', ''1'')]\<rparr>"
  let ?c = "http_get ''http://localhost:5089/api/cart/item/1''"
  have h: "handle RemoveFromCart local_api (always (Rejected e)) ?req
        = (fst (removeFromCart local_api (always (Rejected e)) ?req), [] @ ?c # [])
      \<and> always (Rejected e) [] ?c = Rejected e" for e
    using removeFromCart_first_call [of e] by (simp add: prod_eq_iff always_run)
  have r1: "fst (removeFromCart local_api (always (Rejected network_error)) ?req)
      = Sent \<lparr>code = 500,
             json = JObj [(''message'', JStr ''Error removing from cart''),
                          (''error'', JStr ''Network error'')]\<rparr>"
    using upstream_failure_reply [where op = RemoveFromCart and api = local_api
        and up = "always (Rejected network_error)" and req = ?req and pre = "[]"
        and c = ?c and post = "[]" and e = network_error,
        THEN mp, OF h, THEN conjunct2, THEN conjunct1]
    by (simp add: network_error_def)
  have r2: "fst (removeFromCart local_api (always (Rejected mock_not_found)) ?req)
      = Sent \<lparr>code = 404,
             json = JObj [(''message'', JStr ''Cart item not found''), (''error'', JUndefined)]\<rparr>"
    using upstream_failure_reply [where op = RemoveFromCart and api = local_api
        and up = "always (Rejected mock_not_found)" and req = ?req and pre = "[]"
        and c = ?c and post = "[]" and e = mock_not_found,
        THEN mp, OF h, THEN conjunct2, THEN conjunct2, rule_format,
        of "\<lparr>status = 404, data = JObj [(''message'', JStr ''Cart item not found'')]\<rparr>"]
    by (simp add: mock_not_found_def opt_prop_def nullish_def)
  show ?thesis
    using r1 r2 by (simp add: always_run network_error_def mock_not_found_def)
qed

text \<open>
  The claim as written fails when axios itself reports that 404: the body has no
  \<^verbatim>\<open>errors\<close> field, yet the \<^verbatim>\<open>error\<close> field of the reply is not \<^verbatim>\<open>undefined\<close> but the
  error's own message.
\<close>

theorem upstream_failure_error_field_counterexample:
  "response not_found_error
     = Some \<lparr>status = 404, data = JObj [(''message'', JStr ''Cart item not found'')]\<rparr>
   \<and> opt_prop (JObj [(''message'', JStr ''Cart item not found'')]) ''errors'' = JUndefined
   \<and> removeFromCart local_api (always (Rejected not_found_error))
        (mock_request\<lparr>params := [(''id'', ''1'')]\<rparr>)
      = (Sent \<lparr>code = 404,
               json = JObj [(''message'', JStr ''Cart item not found''),
                            (''error'', JStr ''Request failed with status code 404'')]\<rparr>,
         [http_get ''http://localhost:5089/api/cart/item/1''])"
  using removeFromCart_not_found by (simp add: not_found_error_def opt_prop_def nullish_def)

section \<open>The shape of failure replies\<close>





section \<open>The bearer token\<close>

lemma no_configuration_passed: "list_all (\<lambda>c. config c = None) (snd (handle op api up req))"
  using handle_reported(1) [of op api up req "fst (handle op api up req)" "snd (handle op api up req)"]
  by simp

text \<open>
  C9. No call of any operation passes a request configuration (lemma
  \<open>no_configuration_passed\<close>), so none carries an \<^verbatim>\<open>Authorization\<close> header. On the
  request of the test "should remove from cart successfully", which arrives with
  \<^verbatim>\<open>authorization: "Bearer mock-token"\<close>, the one call issued is
  \<^verbatim>\<open>axios.get(url)\<close> with nothing else.
\<close>

theorem token_not_forwarded:
  "headers (mock_request\<lparr>params := [(''id'', ''1'')]\<rparr>) = [(''authorization'', ''Bearer mock-token'')]
   \<and> snd (removeFromCart local_api (always (Fulfilled (JObj [(''user_id'', JNum (Fin 1))])))
          (mock_request\<lparr>params := [(''id'', ''1'')]\<rparr>))
     = [\<lparr>verb = GET, url = ''http://localhost:5089/api/cart/item/1'', payload = None, config = None\<rparr>]"
  by (simp add: removeFromCart_def removeFromCart_try_def try_catch_def run_io_bind run_axios
      always_run mock_request_def local_api_def path_url_def param_def id_differs_def get_prop_def
      and_then_def method_toString_number user_id_of_def http_get_def)

section \<open>The cart total\<close>

lemma total_loop_sum:
  "map (inventory_url api) items = map Inr urls \<Longrightarrow>
   replies up pre (map http_get urls) = map Fulfilled inventories \<Longrightarrow>
   map2 line_amount inventories items = map Inr amounts \<Longrightarrow>
   total_loop api items t up pre = (Inr (foldl num_add t amounts), pre @ map http_get urls)"
proof (induction items arbitrary: urls inventories amounts t pre)
  case Nil
  then show ?case by simp
next
  case (Cons item items)
  from Cons.prems(1) obtain u us where urls: "urls = u # us"
    and u: "inventory_url api item = Inr u" and us: "map (inventory_url api) items = map Inr us"
    by (auto simp: Cons_eq_map_conv)
  from Cons.prems(2) urls obtain inventory invs where invs: "inventories = inventory # invs"
    and inv: "up pre (http_get u) = Fulfilled inventory"
    and rest: "replies up (pre @ [http_get u]) (map http_get us) = map Fulfilled invs"
    by (auto simp: Cons_eq_map_conv)
  from Cons.prems(3) invs obtain amount as where amounts: "amounts = amount # as"
    and amount: "line_amount inventory item = Inr amount"
    and as: "map2 line_amount invs items = map Inr as"
    by (auto simp: Cons_eq_map_conv)
  have "total_loop api (item # items) t up pre
      = total_loop api items (num_add t amount) up (pre @ [http_get u])"
    using u inv amount by (simp add: run_io_bind run_axios)
  also have "\<dots> = (Inr (foldl num_add (num_add t amount) as), (pre @ [http_get u]) @ map http_get us)"
    by (rule Cons.IH [OF us rest as])
  finally show ?case
    by (simp add: urls amounts)
qed

lemma cart_total_run:
  assumes "\<not> path_id_differs req" and "path_url api ''/api/cart/'' req ''user_id'' = Inr u"
    and "up [] (http_get u) = Fulfilled (JArr items)"
    and "map (inventory_url api) items = map Inr urls"
    and "replies up [http_get u] (map http_get urls) = map Fulfilled inventories"
    and "map2 line_amount inventories items = map Inr amounts"
  shows "getCartTotal api up req
     = (Sent \<lparr>code = 200, json = JObj [(''total'', JNum (foldl num_add (Fin 0) amounts))]\<rparr>,
        http_get u # map http_get urls)"
  using assms(1-3) total_loop_sum [OF assms(4-6), of "Fin 0"]
  by (simp add: getCartTotal_def try_catch_def getCartTotal_try_def run_io_bind run_axios iterate_def)

text \<open>
  C5, as the code has it. For an authorized request whose cart fetch and inventory
  fetches are all fulfilled, one inventory fetch per item in cart order, the total sent
  is the accumulation \<^verbatim>\<open>total += price * quantity\<close> from 0 in that order, every product
  and every sum being a binary64 operation (rounded to nearest).
\<close>

theorem cart_total_accumulates:
  "\<not> path_id_differs req \<and> path_url api ''/api/cart/'' req ''user_id'' = Inr u
     \<and> up [] (http_get u) = Fulfilled (JArr items)
     \<and> map (inventory_url api) items = map Inr urls
     \<and> replies up [http_get u] (map http_get urls) = map Fulfilled inventories
     \<and> map2 line_amount inventories items = map Inr amounts
   \<longrightarrow> getCartTotal api up req
     = (Sent \<lparr>code = 200, json = JObj [(''total'', JNum (foldl num_add (Fin 0) amounts))]\<rparr>,
        http_get u # map http_get urls)"
  using cart_total_run by blast

lemma test_total:
  "foldl num_add (Fin 0) [num_mul (fl (599 / 100)) (Fin 2), num_mul (fl (399 / 100)) (Fin 1)]
     = fl (1597 / 100)"
  by code_simp

lemma order_totals:
  "foldl num_add (Fin 0)
     [num_mul (fl (1 / 10)) (Fin 1), num_mul (fl (1 / 5)) (Fin 1), num_mul (fl (3 / 10)) (Fin 1)]
     = Fin (1351079888211149 / 2251799813685248)"
  "foldl num_add (Fin 0)
     [num_mul (fl (3 / 10)) (Fin 1), num_mul (fl (1 / 5)) (Fin 1), num_mul (fl (1 / 10)) (Fin 1)]
     = Fin (5404319552844595 / 9007199254740992)"
  by code_simp+

text \<open>
  The request of the test "should get cart total successfully": quantities 2 and 1 at
  the prices 5.99 and 3.99 (the binary64 numbers nearest to them) give the binary64
  number nearest to 15.97.
\<close>

theorem cart_total_accumulates_witness:
  "\<not> path_id_differs (owner_request\<lparr>params := [(''user_id'', ''1'')]\<rparr>)
   \<and> getCartTotal local_api
        (shop (JArr [line 1 2, line 2 1])
           [(''http://localhost:5089/api/inventory/1'', priced (fl (599 / 100))),
            (''http://localhost:5089/api/inventory/2'', priced (fl (399 / 100)))])
        (owner_request\<lparr>params := [(''user_id'', ''1'')]\<rparr>)
     = (Sent \<lparr>code = 200, json = JObj [(''total'', JNum (fl (1597 / 100)))]\<rparr>,
        [http_get ''http://localhost:5089/api/cart/1'',
         http_get ''http://localhost:5089/api/inventory/1'',
         http_get ''http://localhost:5089/api/inventory/2''])"
proof -
  let ?req = "owner_request\<lparr>params := [(''user_id'', ''1'')]\<rparr>"
  let ?up = "shop (JArr [line 1 2, line 2 1])
           [(''http://localhost:5089/api/inventory/1'', priced (fl (599 / 100))),
            (''http://localhost:5089/api/inventory/2'', priced (fl (399 / 100)))]"
  let ?u = "''http://localhost:5089/api/cart/1''"
  let ?urls = "[''http://localhost:5089/api/inventory/1'', ''http://localhost:5089/api/inventory/2'']"
  have h: "\<not> path_id_differs ?req \<and> path_url local_api ''/api/cart/'' ?req ''user_id'' = Inr ?u
     \<and> ?up [] (http_get ?u) = Fulfilled (JArr [line 1 2, line 2 1])
     \<and> map (inventory_url local_api) [line 1 2, line 2 1] = map Inr ?urls
     \<and> replies ?up [http_get ?u] (map http_get ?urls)
       = map Fulfilled [priced (fl (599 / 100)), priced (fl (399 / 100))]
     \<and> map2 line_amount [priced (fl (599 / 100)), priced (fl (399 / 100))] [line 1 2, line 2 1]
       = map Inr [num_mul (fl (599 / 100)) (Fin 2), num_mul (fl (399 / 100)) (Fin 1)]"
    by (simp add: owner_path_passes owner_cart_url shop_first shop_later line_inventory_url
        line_amount_priced)
  show ?thesis
    using cart_total_accumulates [where req = ?req and api = local_api and u = ?u and up = ?up
        and items = "[line 1 2, line 2 1]" and urls = ?urls
        and inventories = "[priced (fl (599 / 100)), priced (fl (399 / 100))]"
        and amounts = "[num_mul (fl (599 / 100)) (Fin 2), num_mul (fl (399 / 100)) (Fin 1)]",
        THEN mp, OF h]
    by (simp only: test_total owner_path_passes list.map simp_thms)
qed

text \<open>
  The claim as written fails on a cart of three items of quantity 1 at the prices 0.1,
  0.2 and 0.3: in this order the total is 0.6000000000000001, in the reverse order it
  is 0.6. The total depends on the order of the items, and is not their exact sum.
\<close>

theorem cart_total_order_counterexample:
  "fst (getCartTotal local_api
        (shop (JArr [line 1 1, line 2 1, line 3 1])
           [(''http://localhost:5089/api/inventory/1'', priced (fl (1 / 10))),
            (''http://localhost:5089/api/inventory/2'', priced (fl (1 / 5))),
            (''http://localhost:5089/api/inventory/3'', priced (fl (3 / 10)))])
        (owner_request\<lparr>params := [(''user_id'', ''1'')]\<rparr>))
   \<noteq> fst (getCartTotal local_api
        (shop (JArr [line 3 1, line 2 1, line 1 1])
           [(''http://localhost:5089/api/inventory/1'', priced (fl (1 / 10))),
            (''http://localhost:5089/api/inventory/2'', priced (fl (1 / 5))),
            (''http://localhost:5089/api/inventory/3'', priced (fl (3 / 10)))])
        (owner_request\<lparr>params := [(''user_id'', ''1'')]\<rparr>))"
proof -
  let ?req = "owner_request\<lparr>params := [(''user_id'', ''1'')]\<rparr>"
  let ?prices = "[(''http://localhost:5089/api/inventory/1'', priced (fl (1 / 10))),
            (''http://localhost:5089/api/inventory/2'', priced (fl (1 / 5))),
            (''http://localhost:5089/api/inventory/3'', priced (fl (3 / 10)))]"
  let ?u = "''http://localhost:5089/api/cart/1''"
  have a: "fst (getCartTotal local_api (shop (JArr [line 1 1, line 2 1, line 3 1]) ?prices) ?req)
      = Sent \<lparr>code = 200, json = JObj [(''total'', JNum (Fin (1351079888211149 / 2251799813685248)))]\<rparr>"
    using cart_total_run [OF owner_path_passes owner_cart_url,
        where up = "shop (JArr [line 1 1, line 2 1, line 3 1]) ?prices"
        and items = "[line 1 1, line 2 1, line 3 1]"
        and urls = "[''http://localhost:5089/api/inventory/1'',
                     ''http://localhost:5089/api/inventory/2'',
                     ''http://localhost:5089/api/inventory/3'']"
        and inventories = "[priced (fl (1 / 10)), priced (fl (1 / 5)), priced (fl (3 / 10))]"
        and amounts = "[num_mul (fl (1 / 10)) (Fin 1), num_mul (fl (1 / 5)) (Fin 1),
                        num_mul (fl (3 / 10)) (Fin 1)]"]
    by (simp add: order_totals shop_first shop_later line_inventory_url line_amount_priced
        del: foldl_Cons)
  have b: "fst (getCartTotal local_api (shop (JArr [line 3 1, line 2 1, line 1 1]) ?prices) ?req)
      = Sent \<lparr>code = 200, json = JObj [(''total'', JNum (Fin (5404319552844595 / 9007199254740992)))]\<rparr>"
    using cart_total_run [OF owner_path_passes owner_cart_url,
        where up = "shop (JArr [line 3 1, line 2 1, line 1 1]) ?prices"
        and items = "[line 3 1, line 2 1, line 1 1]"
        and urls = "[''http://localhost:5089/api/inventory/3'',
                     ''http://localhost:5089/api/inventory/2'',
                     ''http://localhost:5089/api/inventory/1'']"
        and inventories = "[priced (fl (3 / 10)), priced (fl (1 / 5)), priced (fl (1 / 10))]"
        and amounts = "[num_mul (fl (3 / 10)) (Fin 1), num_mul (fl (1 / 5)) (Fin 1),
                        num_mul (fl (1 / 10)) (Fin 1)]"]
    by (simp add: order_totals shop_first shop_later line_inventory_url line_amount_priced
        del: foldl_Cons)
  show ?thesis
    unfolding a b by simp
qed

text \<open>
  C10. For an authorized request whose cart fetch is fulfilled with an empty list, the
  reply is 200 with \<^verbatim>\<open>{ total: 0 }\<close>, and the cart fetch is the only upstream call.
\<close>

theorem empty_cart_total:
  "\<not> path_id_differs req \<and> path_url api ''/api/cart/'' req ''user_id'' = Inr u
     \<and> up [] (http_get u) = Fulfilled (JArr []) \<longrightarrow>
   getCartTotal api up req
     = (Sent \<lparr>code = 200, json = JObj [(''total'', JNum (Fin 0))]\<rparr>, [http_get u])"
  by (simp add: getCartTotal_def try_catch_def getCartTotal_try_def run_io_bind run_axios iterate_def)

text \<open>The owner's request against an upstream that answers with an empty cart.\<close>

theorem empty_cart_total_witness:
  "\<not> path_id_differs (owner_request\<lparr>params := [(''user_id'', ''1'')]\<rparr>)
   \<and> getCartTotal local_api (always (Fulfilled (JArr [])))
        (owner_request\<lparr>params := [(''user_id'', ''1'')]\<rparr>)
     = (Sent \<lparr>code = 200, json = JObj [(''total'', JNum (Fin 0))]\<rparr>,
        [http_get ''http://localhost:5089/api/cart/1''])"
proof -
  have h: "\<not> path_id_differs (owner_request\<lparr>params := [(''user_id'', ''1'')]\<rparr>)
      \<and> path_url local_api ''/api/cart/'' (owner_request\<lparr>params := [(''user_id'', ''1'')]\<rparr>) ''user_id''
        = Inr ''http://localhost:5089/api/cart/1''
      \<and> always (Fulfilled (JArr [])) [] (http_get ''http://localhost:5089/api/cart/1'')
        = Fulfilled (JArr [])"
    by (simp add: owner_path_passes owner_cart_url always_run)
  show ?thesis
    using empty_cart_total [where req = "owner_request\<lparr>params := [(''user_id'', ''1'')]\<rparr>"
        and api = local_api and u = "''http://localhost:5089/api/cart/1''"
        and up = "always (Fulfilled (JArr []))", THEN mp, OF h]
    by (simp add: owner_path_passes)
qed

end
